theory Spec2Isabelle
  imports Main
begin

section \<open>Text helpers\<close>

text \<open>
  Python strings are modelled as \<open>string\<close>. The source builds every message and every
  piece of emitted text with f-strings; \<open>quote s\<close> is the text of \<^verbatim>\<open>'{s}'\<close>,
  \<open>str_nat n\<close> the text of \<^verbatim>\<open>{n}\<close> for a non-negative int, \<open>join\<close> is
  \<^verbatim>\<open>delim.join(parts)\<close>.
\<close>

definition quote :: "string \<Rightarrow> string" where
  "quote s = CHR 0x27 # s @ [CHR 0x27]"

fun str_nat :: "nat \<Rightarrow> string" where
  "str_nat n =
     (if n < 10 then [''0123456789'' ! n]
      else str_nat (n div 10) @ [''0123456789'' ! (n mod 10)])"

declare str_nat.simps [simp del]

fun join :: "string \<Rightarrow> string list \<Rightarrow> string" where
  "join delim [] = []"
| "join delim [p] = p"
| "join delim (p # q # ps) = p @ delim @ join delim (q # ps)"

definition startswith :: "string \<Rightarrow> string \<Rightarrow> bool" where
  "startswith s p = (take (length p) s = p)"

definition endswith :: "string \<Rightarrow> string \<Rightarrow> bool" where
  "endswith s p = (length p \<le> length s \<and> drop (length s - length p) s = p)"

section \<open>Python's \<open>float()\<close> and \<open>int()\<close> on a str\<close>

text \<open>
  The type checker asks only whether \<^verbatim>\<open>float(text)\<close> and \<^verbatim>\<open>int(text)\<close> raise.
  Both are builtins of the language; they are modelled from the grammar of the language
  reference (\<^verbatim>\<open>floatvalue\<close>, and a base-10 integer literal): surrounding whitespace
  is removed, one sign is allowed, digits may be grouped by single underscores,
  \<^verbatim>\<open>inf\<close>, \<^verbatim>\<open>infinity\<close> and \<^verbatim>\<open>nan\<close> are read without regard to case.

  A \<open>char\<close> has eight bits, so a \<open>string\<close> is a Python str whose code points are below
  256, each \<open>char\<close> one code point. Among these the decimal digits of Unicode are the ten
  ASCII digits. The whitespace that both builtins remove is the ASCII whitespace of C
  (0x09 to 0x0D and 0x20) and, of the code points from 0x80 on, the two that Unicode
  counts as whitespace, 0x85 and 0xA0, which the builtins turn into spaces before they
  read the text; the separators 0x1C to 0x1F, which \<^verbatim>\<open>str.isspace\<close> accepts, are not
  removed. \<^verbatim>\<open>int()\<close> moreover refuses text of more than 4300 digits (the default of
  \<^verbatim>\<open>sys.int_max_str_digits\<close>); \<^verbatim>\<open>float()\<close> has no such limit.
\<close>

definition is_space :: "char \<Rightarrow> bool" where
  "is_space c =
     (c \<in> set [CHR 0x09, CHR 0x0A, CHR 0x0B, CHR 0x0C, CHR 0x0D, CHR 0x20, CHR 0x85, CHR 0xA0])"

definition strip :: "string \<Rightarrow> string" where
  "strip s = rev (dropWhile is_space (rev (dropWhile is_space s)))"

definition is_digit :: "char \<Rightarrow> bool" where
  "is_digit c = (c \<in> set ''0123456789'')"

fun digitpart :: "string \<Rightarrow> bool" where
  "digitpart [] = False"
| "digitpart [c] = is_digit c"
| "digitpart (c # d # cs) =
     (is_digit c \<and> (if d = CHR ''_'' then digitpart cs else digitpart (d # cs)))"

definition unsigned :: "string \<Rightarrow> string" where
  "unsigned s =
     (case s of
        [] \<Rightarrow> []
      | c # cs \<Rightarrow> if c = CHR ''+'' \<or> c = CHR ''-'' then cs else s)"

definition number :: "string \<Rightarrow> bool" where
  "number s =
     (let ip = takeWhile (\<lambda>c. c \<noteq> CHR ''.'') s;
          r = dropWhile (\<lambda>c. c \<noteq> CHR ''.'') s
      in case r of
           [] \<Rightarrow> digitpart ip
         | _ # fp \<Rightarrow>
             if fp = [] then digitpart ip
             else digitpart fp \<and> (ip = [] \<or> digitpart ip))"

definition floatnumber :: "string \<Rightarrow> bool" where
  "floatnumber s =
     (let m = takeWhile (\<lambda>c. c \<noteq> CHR ''e'' \<and> c \<noteq> CHR ''E'') s;
          r = dropWhile (\<lambda>c. c \<noteq> CHR ''e'' \<and> c \<noteq> CHR ''E'') s
      in case r of
           [] \<Rightarrow> number m
         | _ # x \<Rightarrow> number m \<and> digitpart (unsigned x))"

definition caseless :: "string \<Rightarrow> string \<Rightarrow> string \<Rightarrow> bool" where
  "caseless s lower upper = list_all2 (\<lambda>c (l, u). c = l \<or> c = u) s (zip lower upper)"

definition float_parses :: "string \<Rightarrow> bool" where
  "float_parses s =
     (let t = unsigned (strip s)
      in floatnumber t \<or> caseless t ''inf'' ''INF''
         \<or> caseless t ''infinity'' ''INFINITY'' \<or> caseless t ''nan'' ''NAN'')"

definition int_max_str_digits :: nat where
  "int_max_str_digits = 4300"

definition int_parses :: "string \<Rightarrow> bool" where
  "int_parses s =
     (let t = unsigned (strip s)
      in digitpart t \<and> length (filter is_digit t) \<le> int_max_str_digits)"

section \<open>The typed syntax tree\<close>

text \<open>
  Modelled from the spec: \<^verbatim>\<open>examples/lisp/constructs.py\<close>, which declares \<^verbatim>\<open>Atom\<close>
  and \<^verbatim>\<open>Form\<close>, is missing. The spec gives an Atom one literal value and a Form an ordered
  sequence of nodes; the sources read them as \<^verbatim>\<open>value\<close> and \<^verbatim>\<open>elements\<close>. Of a value the code reads its class (\<^verbatim>\<open>isinstance\<close> of str, int
  or float), compares it with strings, uses it as a dictionary key and formats it. So a
  value is a str, or a number (int, bool or float) kept as the text \<^verbatim>\<open>str()\<close> gives
  for it, or any other object, kept the same way.
\<close>

datatype pyvalue = Str string | Numeric string | Other string

datatype node = Atom pyvalue | Form "node list"

fun str_value :: "pyvalue \<Rightarrow> string" where
  "str_value (Str s) = s"
| "str_value (Numeric r) = r"
| "str_value (Other r) = r"

text \<open>
  Modelled from the spec: the table \<^verbatim>\<open>builtin_functions()\<close> of constructs.py is missing;
  the spec lists its names (section 6) as
  \<^verbatim>\<open>import print + - * / not and or < > <= >= = list first rest ++ map filter lambda if\<close>.
\<close>

definition builtin_functions :: "string list" where
  "builtin_functions =
     [''import'', ''print'', ''+'', ''-'', ''*'', ''/'', ''not'', ''and'', ''or'',
      ''<'', ''>'', ''<='', ''>='', ''='', ''list'', ''first'', ''rest'', ''++'',
      ''map'', ''filter'', ''lambda'', ''if'']"

fun is_builtin :: "pyvalue \<Rightarrow> bool" where
  "is_builtin (Str s) = (s \<in> set builtin_functions)"
| "is_builtin _ = False"

section \<open>The type lattice\<close>

text \<open>
  Modelled from the spec: \<^verbatim>\<open>examples/lisp/type_system/types.py\<close> is missing. The spec
  gives the closed set of descriptors and says that equality is structural. Each
  descriptor has a method \<^verbatim>\<open>name()\<close> whose text the spec does not give: every function
  below that formats a type takes it as the parameter \<open>name\<close>.
\<close>

datatype PrimitiveType = String | Bool | Number

datatype ty =
    Primitive PrimitiveType
  | UnrecognizedType
  | EmptyList
  | ListType (element: ty)
  | PossibleEmptyList (element: ty)

fun is_empty_list :: "ty \<Rightarrow> bool" where
  "is_empty_list EmptyList = True"
| "is_empty_list _ = False"

fun is_list :: "ty \<Rightarrow> bool" where
  "is_list (ListType _) = True"
| "is_list _ = False"

fun is_possibly_empty :: "ty \<Rightarrow> bool" where
  "is_possibly_empty (PossibleEmptyList _) = True"
| "is_possibly_empty _ = False"

section \<open>List-type unification (\<^verbatim>\<open>infer_element_types\<close>)\<close>

text \<open>
  The function returns a pair of a flag and an object: \<open>Inr t\<close> is \<^verbatim>\<open>(True, t)\<close>,
  \<open>Inl m\<close> is \<^verbatim>\<open>(False, m)\<close> with the message \<open>m\<close>. \<open>inner\<close> is the nested function
  of the source; it is first tried on \<^verbatim>\<open>(list2, list1)\<close>, then on \<^verbatim>\<open>(list1, list2)\<close>.
\<close>

definition incompatible :: "(ty \<Rightarrow> string) \<Rightarrow> ty \<Rightarrow> ty \<Rightarrow> string" where
  "incompatible name t1 t2 =
     ''Incompatible list types '' @ quote (name t1) @ '', '' @ quote (name t2)"

function (sequential)
  infer_element_types :: "(ty \<Rightarrow> string) \<Rightarrow> ty \<Rightarrow> ty \<Rightarrow> string + ty" and
  inner :: "(ty \<Rightarrow> string) \<Rightarrow> ty \<Rightarrow> ty \<Rightarrow> string + ty"
where
  "infer_element_types name list1 list2 =
     (case inner name list2 list1 of
        Inr list_type \<Rightarrow> Inr list_type
      | Inl _ \<Rightarrow>
          (case inner name list1 list2 of
             Inr list_type \<Rightarrow> Inr list_type
           | Inl _ \<Rightarrow>
               if list1 = list2 then Inr list1
               else Inl (incompatible name list1 list2)))"
| "inner name (ListType e1) (ListType e2) =
     (case infer_element_types name e1 e2 of
        Inl _ \<Rightarrow> Inl (incompatible name (ListType e1) (ListType e2))
      | Inr element_type \<Rightarrow> Inr (ListType element_type))"
| "inner name (ListType e1) EmptyList = Inr (PossibleEmptyList e1)"
| "inner name (ListType e1) (PossibleEmptyList e2) =
     (case infer_element_types name e1 e2 of
        Inl _ \<Rightarrow> Inl (incompatible name (ListType e1) (PossibleEmptyList e2))
      | Inr element_type \<Rightarrow> Inr (PossibleEmptyList e1))"
| "inner name t1 t2 = Inl ''''"
  by pat_completeness auto
termination
  by (relation "measure (\<lambda>x. case x of
         Inl (_, t1, t2) \<Rightarrow> 2 * (size t1 + size t2) + 1
       | Inr (_, t1, t2) \<Rightarrow> 2 * (size t1 + size t2))") auto

declare infer_element_types.simps [simp del]

section \<open>Type inference (\<^verbatim>\<open>infer_type\<close>)\<close>

text \<open>
  \<^verbatim>\<open>infer_type\<close> returns a pair \<^verbatim>\<open>(True, type)\<close>, written \<open>Ok type\<close>, or a pair
  \<^verbatim>\<open>(False, object)\<close>, written \<open>Fail object\<close>, where the object is a message or, in
  one place, a type descriptor. It can also end without a \<^verbatim>\<open>return\<close>, which yields
  Python's \<^verbatim>\<open>None\<close> (\<open>NoneResult\<close>), or raise: \<^verbatim>\<open>elements[i]\<close> beyond the
  end raises IndexError, and unpacking \<^verbatim>\<open>None\<close> into two names raises TypeError.
  The namespace maps names to types; a value that is not a str is never one of its keys.
\<close>

datatype payload = Message string | Type ty

datatype exception = IndexError | AttributeError | TypeError string | SyntaxError string

datatype outcome = Ok ty | Fail payload | NoneResult | Raised exception

fun unpack :: "outcome \<Rightarrow> outcome" where
  "unpack NoneResult = Raised (TypeError ''cannot unpack non-iterable NoneType object'')"
| "unpack r = r"

fun lookup :: "(string \<rightharpoonup> 'a) \<Rightarrow> pyvalue \<Rightarrow> 'a option" where
  "lookup ns (Str s) = ns s"
| "lookup ns _ = None"

definition is_string_literal :: "string \<Rightarrow> bool" where
  "is_string_literal s =
     (s = [CHR 0x22, CHR 0x22] \<or> (startswith s [CHR 0x22] \<and> endswith s [CHR 0x22]))"

definition is_bool_literal :: "string \<Rightarrow> bool" where
  "is_bool_literal s = (s = ''true'' \<or> s = ''false'')"

definition maybe_empty_predicate :: "ty \<Rightarrow> ty \<Rightarrow> bool" where
  "maybe_empty_predicate t1 t2 = (is_list t1 \<and> (is_empty_list t2 \<or> is_possibly_empty t2))"

fun infer_type :: "(ty \<Rightarrow> string) \<Rightarrow> (string \<rightharpoonup> ty) \<Rightarrow> node \<Rightarrow> outcome"
  and list_loop :: "(ty \<Rightarrow> string) \<Rightarrow> (string \<rightharpoonup> ty) \<Rightarrow> nat \<Rightarrow> ty \<Rightarrow> node list \<Rightarrow> outcome"
where
  "infer_type name ns (Atom (Str s)) =
     (if is_string_literal s then Ok (Primitive String)
      else if is_bool_literal s then Ok (Primitive Bool)
      else case ns s of
             Some t \<Rightarrow> Ok t
           | None \<Rightarrow>
               if float_parses s then Ok (Primitive Number)
               else if int_parses s then Ok (Primitive Number)
               else Fail (Message (''Cannot infer type of '' @ quote s)))"
| "infer_type name ns (Atom (Numeric r)) = Ok (Primitive Number)"
| "infer_type name ns (Atom (Other r)) = Fail (Type UnrecognizedType)"
| "infer_type name ns (Form []) = Raised IndexError"
| "infer_type name ns (Form (Form es # rest)) = NoneResult"
| "infer_type name ns (Form (Atom v # rest)) =
     (case lookup ns v of
        Some t \<Rightarrow> Ok t
      | None \<Rightarrow>
          if is_builtin v \<and> v = Str ''list'' then
            (case rest of
               [] \<Rightarrow> Ok EmptyList
             | a # more \<Rightarrow>
                 (case unpack (infer_type name ns a) of
                    Ok element_type \<Rightarrow> list_loop name ns 2 element_type more
                  | r \<Rightarrow> r))
          else if is_builtin v \<and> v = Str ''++'' then
            (case rest of
               [] \<Rightarrow> Raised IndexError
             | a # rest1 \<Rightarrow>
                 (case unpack (infer_type name ns a) of
                    Raised e \<Rightarrow> Raised e
                  | r_element \<Rightarrow>
                      (case rest1 of
                         [] \<Rightarrow> Raised IndexError
                       | b # _ \<Rightarrow>
                           (case unpack (infer_type name ns b) of
                              Raised e \<Rightarrow> Raised e
                            | r_list \<Rightarrow>
                                (case r_element of
                                   Ok element_type \<Rightarrow>
                                     (case r_list of
                                        Ok list_type \<Rightarrow>
                                          if is_empty_list list_type then Ok (ListType element_type)
                                          else
                                            (case (if is_list list_type \<or> is_possibly_empty list_type
                                                   then infer_element_types name (ListType element_type) list_type
                                                   else Inl [])
                                             of
                                               Inr resulting_list_type \<Rightarrow> Ok resulting_list_type
                                             | Inl _ \<Rightarrow>
                                                 Fail (Message (''Cannot append element of type ''
                                                   @ quote (name element_type) @ '' to ''
                                                   @ quote (name list_type))))
                                      | r \<Rightarrow> r)
                                 | r \<Rightarrow> r)))))
          else if is_builtin v \<and> v = Str ''first'' then
            (case rest of
               [] \<Rightarrow> Raised IndexError
             | a # _ \<Rightarrow>
                 (case unpack (infer_type name ns a) of
                    Ok list_type \<Rightarrow>
                      if is_list list_type then Ok (element list_type)
                      else Fail (Message (quote ''first''
                             @ '' expected a non-empty List type but got '' @ quote (name list_type)))
                  | r \<Rightarrow> r))
          else if is_builtin v \<and> v = Str ''rest'' then
            (case rest of
               [] \<Rightarrow> Raised IndexError
             | a # _ \<Rightarrow>
                 (case unpack (infer_type name ns a) of
                    Ok list_type \<Rightarrow>
                      if is_list list_type then Ok (PossibleEmptyList (element list_type))
                      else Fail (Message (quote ''rest''
                             @ '' expected a non-empty List type but got '' @ quote (name list_type)))
                  | r \<Rightarrow> r))
          else if is_builtin v \<and> v = Str ''if'' then
            (case rest of
               [] \<Rightarrow> Raised IndexError
             | c # rest1 \<Rightarrow>
                 (case unpack (infer_type name ns c) of
                    Ok condition_type \<Rightarrow>
                      if condition_type \<noteq> Primitive Bool then
                        Fail (Message (''Expected if condition to have type '' @ quote ''bool''
                          @ '' but got '' @ quote (name condition_type)))
                      else
                        (case rest1 of
                           [] \<Rightarrow> Raised IndexError
                         | t # rest2 \<Rightarrow>
                             (case unpack (infer_type name ns t) of
                                Ok true_branch_type \<Rightarrow>
                                  (case rest2 of
                                     [] \<Rightarrow> Raised IndexError
                                   | f # _ \<Rightarrow>
                                       (case unpack (infer_type name ns f) of
                                          Ok false_branch_type \<Rightarrow>
                                            if true_branch_type \<noteq> false_branch_type then
                                              if maybe_empty_predicate true_branch_type false_branch_type
                                                 \<or> maybe_empty_predicate false_branch_type true_branch_type
                                              then Ok (PossibleEmptyList
                                                     (if is_list true_branch_type
                                                      then element true_branch_type
                                                      else element false_branch_type))
                                              else Fail (Message (''Incompatible types in if branches: ''
                                                     @ quote (name true_branch_type) @ '' and ''
                                                     @ quote (name false_branch_type)))
                                            else Ok true_branch_type
                                        | r \<Rightarrow> r))
                              | r \<Rightarrow> r))
                  | r \<Rightarrow> r))
          else Fail (Message (''Unrecognized form '' @ quote (str_value v) @ '', cannot infer type'')))"
| "list_loop name ns i element_type [] = Ok (ListType element_type)"
| "list_loop name ns i element_type (e # es) =
     (case unpack (infer_type name ns e) of
        Ok i_type \<Rightarrow>
          (case infer_element_types name (ListType element_type) (ListType i_type) of
             Inl _ \<Rightarrow>
               Fail (Message (''List '' @ str_nat (i - 1) @ ''-th element has type ''
                 @ quote (name i_type) @ '' which is not compatible with inferred type ''
                 @ quote (name element_type)))
           | Inr resulting_list_type \<Rightarrow>
               list_loop name ns (i + 1) (element resulting_list_type) es)
      | r \<Rightarrow> r)"

section \<open>Code emission (\<^verbatim>\<open>compile_obj\<close>, \<^verbatim>\<open>compile_builtin\<close>)\<close>

text \<open>
  Emission returns text or raises: \<open>Inr text\<close> is the returned string, \<open>Inl e\<close> the
  exception. The parameter \<open>str\<close> is \<^verbatim>\<open>str()\<close> of a node (constructs.py is
  missing), used where a message formats a node. \<open>create_body\<close> is the nested function
  of \<^verbatim>\<open>compile_builtin\<close>; \<open>compile_all\<close> is its list comprehension, which compiles
  the elements from left to right at indentation 0 and stops at the first exception. The
  list \<open>arguments\<close> is \<^verbatim>\<open>form.elements[1:]\<close>, so \<^verbatim>\<open>len(form.elements) - 1\<close> is its
  length and \<^verbatim>\<open>form.elements[k]\<close> its item \<open>k - 1\<close>. The cases \<^verbatim>\<open>map\<close> and
  \<^verbatim>\<open>filter\<close> of the source differ in the operator's name only and are one branch
  here; \<open>takes\<close> is the message of the arity errors, raised as a TypeError.
\<close>

definition current_indent :: "int \<Rightarrow> string" where
  "current_indent indent = replicate (nat (indent * 4)) (CHR 0x20)"

definition takes :: "string \<Rightarrow> string \<Rightarrow> nat \<Rightarrow> exception" where
  "takes op expected n_args =
     TypeError (quote op @ '' takes '' @ expected @ '' but '' @ str_nat n_args @ '' were given!'')"

function (sequential)
  compile_obj :: "(node \<Rightarrow> string) \<Rightarrow> node \<Rightarrow> int \<Rightarrow> exception + string" and
  compile_builtin :: "(node \<Rightarrow> string) \<Rightarrow> node \<Rightarrow> exception + string" and
  create_body :: "(node \<Rightarrow> string) \<Rightarrow> string \<Rightarrow> node list \<Rightarrow> exception + string" and
  compile_all :: "(node \<Rightarrow> string) \<Rightarrow> node list \<Rightarrow> exception + string list"
where
  "compile_obj str (Atom v) indent =
     Inr (current_indent indent @
          (if v = Str ''true'' then ''True''
           else if v = Str ''false'' then ''False''
           else str_value v))"
| "compile_obj str (Form []) indent = Inr []"
| "compile_obj str (Form (Form es # rest)) indent =
     Inl (SyntaxError (''Expected Atom as first element of Form, but got '' @ str (Form es)))"
| "compile_obj str (Form (Atom form_name # rest)) indent =
     (if is_builtin form_name then
        (case compile_builtin str (Form (Atom form_name # rest)) of
           Inl e \<Rightarrow> Inl e
         | Inr text \<Rightarrow> Inr (current_indent indent @ text))
      else
        (case create_body str '','' rest of
           Inl e \<Rightarrow> Inl e
         | Inr arguments \<Rightarrow>
             Inr (current_indent indent @ str_value form_name @ ''('' @ arguments @ '')'')))"
| "compile_builtin str (Atom v) = Inl AttributeError"
| "compile_builtin str (Form []) = Inl IndexError"
| "compile_builtin str (Form (Form es # arguments)) = Inl AttributeError"
| "compile_builtin str (Form (Atom function_name # arguments)) =
     (if function_name = Str ''import'' then
        (case arguments of
           [] \<Rightarrow> Inl IndexError
         | Atom v # _ \<Rightarrow> Inr (''import '' @ str_value v)
         | Form _ # _ \<Rightarrow> Inl AttributeError)
      else if function_name = Str ''print'' then
        (case create_body str '', '' arguments of
           Inl e \<Rightarrow> Inl e
         | Inr b \<Rightarrow> Inr (''print('' @ b @ '')''))
      else if function_name = Str ''+'' then create_body str '' + '' arguments
      else if function_name = Str ''-'' then create_body str '' - '' arguments
      else if function_name = Str ''*'' then create_body str '' * '' arguments
      else if function_name = Str ''/'' then create_body str '' / '' arguments
      else if function_name = Str ''not'' then
        (if length arguments \<noteq> 1
         then Inl (takes ''not'' ''1 argument'' (length arguments))
         else case create_body str [] arguments of
                Inl e \<Rightarrow> Inl e
              | Inr b \<Rightarrow> Inr ('' not '' @ b))
      else if function_name = Str ''and'' \<or> function_name = Str ''or'' then
        create_body str ('' '' @ str_value function_name @ '' '') arguments
      else if function_name = Str ''<'' \<or> function_name = Str ''>''
              \<or> function_name = Str ''<='' \<or> function_name = Str ''>='' then
        (if length arguments \<noteq> 2
         then Inl (takes (str_value function_name) (str_nat 2 @ '' arguments'') (length arguments))
         else create_body str ('' '' @ str_value function_name @ '' '') arguments)
      else if function_name = Str ''='' then
        (if length arguments \<noteq> 2
         then Inl (takes ''='' ''2 arguments'' (length arguments))
         else create_body str '' == '' arguments)
      else if function_name = Str ''list'' then
        (case create_body str '', '' arguments of
           Inl e \<Rightarrow> Inl e
         | Inr b \<Rightarrow> Inr (''list_create('' @ b @ '')''))
      else if function_name = Str ''first'' then
        (if length arguments \<noteq> 1
         then Inl (takes ''first'' ''1 argument'' (length arguments))
         else case create_body str [] arguments of
                Inl e \<Rightarrow> Inl e
              | Inr b \<Rightarrow> Inr (b @ ''[0]''))
      else if function_name = Str ''rest'' then
        (if length arguments \<noteq> 1
         then Inl (takes ''rest'' ''1 argument'' (length arguments))
         else case create_body str [] arguments of
                Inl e \<Rightarrow> Inl e
              | Inr b \<Rightarrow> Inr (b @ ''[1:]''))
      else if function_name = Str ''++'' then
        (case create_body str '', '' arguments of
           Inl e \<Rightarrow> Inl e
         | Inr b \<Rightarrow> Inr (''list_append('' @ b @ '')''))
      else if function_name = Str ''map'' \<or> function_name = Str ''filter'' then
        (if length arguments \<noteq> 2
         then Inl (takes (str_value function_name) ''2 arguments'' (length arguments))
         else case arguments of
                f # c # _ \<Rightarrow>
                  (case compile_obj str f 0 of
                     Inl e \<Rightarrow> Inl e
                   | Inr func \<Rightarrow>
                       (case compile_obj str c 0 of
                          Inl e \<Rightarrow> Inl e
                        | Inr collection \<Rightarrow>
                            Inr (''list('' @ str_value function_name @ ''('' @ func @ '', ''
                                 @ collection @ ''))'')))
              | _ \<Rightarrow> Inl IndexError)
      else if function_name = Str ''lambda'' then
        (case arguments of
           [] \<Rightarrow> Inl IndexError
         | a # rest \<Rightarrow>
             (case (case a of
                      Atom _ \<Rightarrow> compile_obj str a 0
                    | Form es \<Rightarrow> create_body str '', '' es)
              of
                Inl e \<Rightarrow> Inl e
              | Inr params \<Rightarrow>
                  (case rest of
                     [] \<Rightarrow> Inl IndexError
                   | b # _ \<Rightarrow>
                       (case compile_obj str b 0 of
                          Inl e \<Rightarrow> Inl e
                        | Inr expr \<Rightarrow> Inr (''lambda '' @ params @ '': '' @ expr)))))
      else if function_name = Str ''if'' then
        (if length arguments \<noteq> 3
         then Inl (TypeError (''if requires 3 arguments but '' @ str_nat (length arguments)
                     @ '' were given!''))
         else case arguments of
                c # t # f # _ \<Rightarrow>
                  (case compile_obj str c 0 of
                     Inl e \<Rightarrow> Inl e
                   | Inr condition \<Rightarrow>
                       (case compile_obj str t 0 of
                          Inl e \<Rightarrow> Inl e
                        | Inr if_branch \<Rightarrow>
                            (case compile_obj str f 0 of
                               Inl e \<Rightarrow> Inl e
                             | Inr else_branch \<Rightarrow>
                                 Inr (''('' @ if_branch @ '') if ('' @ condition @ '') else (''
                                      @ else_branch @ '')''))))
              | _ \<Rightarrow> Inl IndexError)
      else Inr [])"
| "create_body str delim elements =
     (case compile_all str elements of
        Inl e \<Rightarrow> Inl e
      | Inr parts \<Rightarrow> Inr (join delim parts))"
| "compile_all str [] = Inr []"
| "compile_all str (e # es) =
     (case compile_obj str e 0 of
        Inl x \<Rightarrow> Inl x
      | Inr p \<Rightarrow>
          (case compile_all str es of
             Inl x \<Rightarrow> Inl x
           | Inr ps \<Rightarrow> Inr (p # ps)))"
  by pat_completeness auto
termination
  by (relation "measure (\<lambda>x. case x of
         Inl (Inl (_, n, _)) \<Rightarrow> 2 * size n + 1
       | Inl (Inr (_, n)) \<Rightarrow> 2 * size n
       | Inr (Inl (_, _, es)) \<Rightarrow> 2 * size_list size es + 1
       | Inr (Inr (_, es)) \<Rightarrow> 2 * size_list size es)") auto

section \<open>Functions and the program (\<^verbatim>\<open>compile_function\<close>, \<^verbatim>\<open>validate\<close>, \<^verbatim>\<open>compile_program\<close>)\<close>

text \<open>
  Modelled from the spec: the class \<^verbatim>\<open>Function\<close> of constructs.py is missing; the spec
  gives it a name, the parameter names and a body of nodes. Missing as well are \<^verbatim>\<open>is_function_def\<close>, \<^verbatim>\<open>is_import\<close>,
  \<^verbatim>\<open>to_function\<close> and \<^verbatim>\<open>to_object\<close>: the first three are parameters of the functions
  below, and the program is given as the list \<open>objects\<close> that \<^verbatim>\<open>to_object\<close> yields from
  the children of the tree (no children, no objects). A namespace is a Python dict, kept as
  the list of its items in insertion order. The call of \<^verbatim>\<open>logger.error\<close> in
  \<^verbatim>\<open>compile_function\<close> changes no result and is left out.
\<close>

datatype Function = Function string "string list" "node list"

fun body_lines ::
  "(node \<Rightarrow> string) \<Rightarrow> int \<Rightarrow> bool \<Rightarrow> nat \<Rightarrow> nat \<Rightarrow> node list \<Rightarrow> exception + string list" where
  "body_lines str indent add_return n i [] = Inr []"
| "body_lines str indent add_return n i (obj # objs) =
     (case compile_obj str obj indent of
        Inl e \<Rightarrow> Inl e
      | Inr text \<Rightarrow>
          (case body_lines str indent add_return n (i + 1) objs of
             Inl e \<Rightarrow> Inl e
           | Inr ls \<Rightarrow>
               Inr ((replicate (4 * nat (indent + 1)) (CHR 0x20)
                     @ (if add_return \<and> int i = int n - 1 then ''return '' else [])
                     @ text) # ls)))"

fun compile_function :: "(node \<Rightarrow> string) \<Rightarrow> Function \<Rightarrow> int \<Rightarrow> exception + string" where
  "compile_function str (Function fname params body) indent =
     (if fname = ''main'' then
        (case body_lines str indent False (length body) 0 body of
           Inl e \<Rightarrow> Inl e
         | Inr ls \<Rightarrow>
             Inr ((''if __name__ == '' @ quote ''__main__'' @ '':'' @ [CHR 0x0A]
                   @ join [CHR 0x0A] ls @ [CHR 0x0A]) @ [CHR 0x0A]))
      else
        (case body_lines str indent True (length body) 0 body of
           Inl e \<Rightarrow> Inl e
         | Inr ls \<Rightarrow>
             Inr ((''def '' @ fname @ ''('' @ join '', '' params @ ''):'' @ [CHR 0x0A]
                   @ join [CHR 0x0A] ls) @ [CHR 0x0A])))"

fun validate ::
  "(node \<Rightarrow> string) \<Rightarrow> (node \<Rightarrow> bool) \<Rightarrow> (node \<Rightarrow> bool) \<Rightarrow> node list \<Rightarrow> bool \<times> string" where
  "validate str is_function_def is_import [] = (True, [])"
| "validate str is_function_def is_import (Atom v # objs) =
     (False, ''Got unexpected object at root-level: '' @ str (Atom v))"
| "validate str is_function_def is_import (Form es # objs) =
     (if \<not> is_function_def (Form es) \<and> is_import (Form es) then
        (False, ''Expected only function definitions and imports at root-level but got: ''
                @ str (Form es))
      else validate str is_function_def is_import objs)"

type_synonym namespace = "(pyvalue \<times> Function) list"

fun dict_set :: "namespace \<Rightarrow> pyvalue \<Rightarrow> Function \<Rightarrow> namespace" where
  "dict_set [] k v = [(k, v)]"
| "dict_set ((k', v') # d) k v = (if k' = k then (k, v) # d else (k', v') # dict_set d k v)"

fun definitions ::
  "(node \<Rightarrow> bool) \<Rightarrow> (node \<Rightarrow> exception + Function) \<Rightarrow> namespace \<Rightarrow> node list
   \<Rightarrow> exception + namespace" where
  "definitions is_function_def to_function d [] = Inr d"
| "definitions is_function_def to_function d (form # objs) =
     (if is_function_def form then
        (case form of
           Atom _ \<Rightarrow> Inl AttributeError
         | Form [] \<Rightarrow> Inl IndexError
         | Form [_] \<Rightarrow> Inl IndexError
         | Form (_ # Form _ # _) \<Rightarrow> Inl AttributeError
         | Form (_ # Atom k # _) \<Rightarrow>
             (case to_function form of
                Inl e \<Rightarrow> Inl e
              | Inr f \<Rightarrow> definitions is_function_def to_function (dict_set d k f) objs))
      else definitions is_function_def to_function d objs)"

fun emit_functions :: "(node \<Rightarrow> string) \<Rightarrow> string \<Rightarrow> Function list \<Rightarrow> exception + string" where
  "emit_functions str output [] = Inr output"
| "emit_functions str output (function # fs) =
     (case compile_function str function 0 of
        Inl e \<Rightarrow> Inl e
      | Inr text \<Rightarrow> emit_functions str (output @ text @ [CHR 0x0A]) fs)"

definition convert_to_output ::
  "(node \<Rightarrow> string) \<Rightarrow> (node \<Rightarrow> bool) \<Rightarrow> bool \<Rightarrow> namespace \<Rightarrow> node list \<Rightarrow> exception + string" where
  "convert_to_output str is_function_def is_repl namespace objects =
     (case emit_functions str (''from lisp_core import *'' @ [CHR 0x0A, CHR 0x0A])
             (map snd namespace) of
        Inl e \<Rightarrow> Inl e
      | Inr output \<Rightarrow>
          if is_repl then
            (case compile_all str (filter (\<lambda>form. \<not> is_function_def form) objects) of
               Inl e \<Rightarrow> Inl e
             | Inr texts \<Rightarrow> Inr (output @ join [CHR 0x0A] texts @ [CHR 0x0A, CHR 0x0A]))
          else Inr output)"

definition compile_program ::
  "(node \<Rightarrow> string) \<Rightarrow> (node \<Rightarrow> bool) \<Rightarrow> (node \<Rightarrow> bool) \<Rightarrow> (node \<Rightarrow> exception + Function)
   \<Rightarrow> node list \<Rightarrow> namespace \<Rightarrow> bool \<Rightarrow> exception + bool \<times> string \<times> namespace" where
  "compile_program str is_function_def is_import to_function objects ext_funcs is_repl =
     (if objects = [] then Inr (True, [], [])
      else case validate str is_function_def is_import objects of
        (False, validation_message) \<Rightarrow> Inr (False, validation_message, [])
      | (True, _) \<Rightarrow>
          (case definitions is_function_def to_function ext_funcs objects of
             Inl e \<Rightarrow> Inl e
           | Inr namespace \<Rightarrow>
               if \<not> is_repl \<and> Str ''main'' \<notin> fst ` set namespace then
                 Inr (False, ''Function '' @ quote ''main'' @ '' is not defined!'', [])
               else
                 (case convert_to_output str is_function_def is_repl namespace objects of
                    Inl e \<Rightarrow> Inl e
                  | Inr output \<Rightarrow> Inr (True, output, namespace))))"

section \<open>Sample parameters\<close>

text \<open>
  The closed examples below need values for the parameters that stand for the missing
  files: a naming of the types, a rendering of nodes, and a test of a form's head atom
  against a keyword. The general theorems hold for every choice of the parameters.
\<close>

fun sample_name :: "ty \<Rightarrow> string" where
  "sample_name (Primitive String) = ''string''"
| "sample_name (Primitive Bool) = ''bool''"
| "sample_name (Primitive Number) = ''number''"
| "sample_name UnrecognizedType = ''unrecognized''"
| "sample_name EmptyList = ''EmptyList''"
| "sample_name (ListType e) = ''List['' @ sample_name e @ '']''"
| "sample_name (PossibleEmptyList e) = ''PossibleEmptyList['' @ sample_name e @ '']''"

fun sample_str :: "node \<Rightarrow> string" where
  "sample_str (Atom v) = str_value v"
| "sample_str (Form es) = ''('' @ join '' '' (map sample_str es) @ '')''"

definition head_is :: "string \<Rightarrow> node \<Rightarrow> bool" where
  "head_is keyword obj =
     (case obj of Form (Atom (Str s) # _) \<Rightarrow> s = keyword | _ \<Rightarrow> False)"

section \<open>Number text is neither a string literal nor a boolean literal\<close>

lemmas literal_defs =
  is_string_literal_def is_bool_literal_def startswith_def endswith_def
  float_parses_def int_parses_def strip_def is_space_def unsigned_def floatnumber_def
  number_def is_digit_def caseless_def builtin_functions_def

lemma digitpart_hd: "digitpart (c # cs) \<Longrightarrow> is_digit c"
  by (cases cs) auto

lemma not_digitpart_quote: "\<not> digitpart (CHR 0x22 # cs)"
  using digitpart_hd [of "CHR 0x22" cs] by (auto simp: is_digit_def)

lemma not_number_quote: "\<not> number (CHR 0x22 # t)"
  by (auto simp: number_def Let_def not_digitpart_quote split: list.splits)

lemma not_floatnumber_quote: "\<not> floatnumber (CHR 0x22 # t)"
  by (auto simp: floatnumber_def Let_def not_number_quote split: list.splits)

lemma dropWhile_snoc: "\<not> P x \<Longrightarrow> \<exists>zs. dropWhile P (xs @ [x]) = zs @ [x]"
  by (induction xs) auto

lemma strip_quote: "\<exists>t. strip (CHR 0x22 # cs) = CHR 0x22 # t"
proof -
  have "\<not> is_space (CHR 0x22)" by (simp add: is_space_def)
  from dropWhile_snoc [of is_space "CHR 0x22" "rev cs", OF this]
  obtain zs where "dropWhile is_space (rev cs @ [CHR 0x22]) = zs @ [CHR 0x22]" ..
  then show ?thesis by (simp add: strip_def is_space_def)
qed

lemma not_float_parses_quote: "\<not> float_parses (CHR 0x22 # cs)"
proof -
  obtain t where t: "strip (CHR 0x22 # cs) = CHR 0x22 # t" using strip_quote by blast
  show ?thesis
    by (simp add: float_parses_def t unsigned_def not_floatnumber_quote caseless_def)
qed

lemma not_int_parses_quote: "\<not> int_parses (CHR 0x22 # cs)"
proof -
  obtain t where t: "strip (CHR 0x22 # cs) = CHR 0x22 # t" using strip_quote by blast
  show ?thesis
    by (simp add: int_parses_def t unsigned_def not_digitpart_quote)
qed

text \<open>
  The test of the source, \<^verbatim>\<open>value == '""' or (value.startswith('"') and
  value.endswith('"'))\<close>, holds exactly of the non-empty texts that begin and end with a
  double quote; the text of the one character \<^verbatim>\<open>"\<close> is among them.
\<close>

lemma is_string_literal_iff:
  "is_string_literal s \<longleftrightarrow> s \<noteq> [] \<and> hd s = CHR 0x22 \<and> last s = CHR 0x22"
proof (cases s rule: rev_cases)
  case Nil
  then show ?thesis by (simp add: is_string_literal_def startswith_def endswith_def)
next
  case (snoc ys y)
  then show ?thesis
    by (cases ys) (auto simp: is_string_literal_def startswith_def endswith_def)
qed

lemma number_text_is_no_literal:
  assumes "float_parses s \<or> int_parses s"
  shows "\<not> is_string_literal s \<and> \<not> is_bool_literal s"
proof -
  have "\<not> is_string_literal s"
  proof
    assume "is_string_literal s"
    then obtain cs where "s = CHR 0x22 # cs"
      by (cases s) (auto simp: is_string_literal_iff)
    with assms show False
      using not_float_parses_quote not_int_parses_quote by blast
  qed
  moreover have "\<not> float_parses ''true''" "\<not> float_parses ''false''"
    "\<not> int_parses ''true''" "\<not> int_parses ''false''"
    by code_simp+
  then have "\<not> is_bool_literal s"
    using assms by (auto simp: is_bool_literal_def)
  ultimately show ?thesis by simp
qed

text \<open>
  Text that \<^verbatim>\<open>int()\<close> reads is read by \<^verbatim>\<open>float()\<close> as well, so the inner
  \<^verbatim>\<open>try\<close> of the source decides nothing.
\<close>

lemma digitpart_chars: "digitpart t \<Longrightarrow> c \<in> set t \<Longrightarrow> is_digit c \<or> c = CHR ''_''"
  by (induction t rule: digitpart.induct) (auto split: if_splits)

lemma digitpart_floatnumber:
  assumes "digitpart t"
  shows "floatnumber t"
proof -
  have d: "\<And>c. c \<in> set t \<Longrightarrow> is_digit c \<or> c = CHR ''_''"
    using assms digitpart_chars by blast
  have e: "takeWhile (\<lambda>c. c \<noteq> CHR ''e'' \<and> c \<noteq> CHR ''E'') t = t"
    using d by (auto simp: takeWhile_eq_all_conv is_digit_def)
  have p: "takeWhile (\<lambda>c. c \<noteq> CHR ''.'') t = t"
    using d by (auto simp: takeWhile_eq_all_conv is_digit_def)
  have e': "dropWhile (\<lambda>c. c \<noteq> CHR ''e'' \<and> c \<noteq> CHR ''E'') t = []"
    using d by (auto simp: is_digit_def)
  have p': "dropWhile (\<lambda>c. c \<noteq> CHR ''.'') t = []"
    using d by (auto simp: is_digit_def)
  show ?thesis
    using assms by (simp add: floatnumber_def number_def e e' p p')
qed

lemma int_parses_float_parses: "int_parses s \<Longrightarrow> float_parses s"
  by (simp add: int_parses_def float_parses_def Let_def digitpart_floatnumber)

section \<open>Type inference of atoms\<close>

lemma strip_keeps_hd: "\<not> is_space c \<Longrightarrow> \<exists>t. strip (c # cs) = c # t"
proof -
  assume c: "\<not> is_space c"
  from dropWhile_snoc [of is_space c "rev cs", OF c]
  obtain zs where "dropWhile is_space (rev cs @ [c]) = zs @ [c]" ..
  with c show ?thesis by (simp add: strip_def)
qed

lemma not_number_hd:
  assumes "\<not> is_space c" "c \<noteq> CHR ''+''" "c \<noteq> CHR ''-''" "\<not> is_digit c" "c \<noteq> CHR ''.''"
    "c \<noteq> CHR ''i''" "c \<noteq> CHR ''I''" "c \<noteq> CHR ''n''" "c \<noteq> CHR ''N''"
  shows "\<not> float_parses (c # cs)" and "\<not> int_parses (c # cs)"
proof -
  obtain t where t: "strip (c # cs) = c # t"
    using strip_keeps_hd [OF assms(1)] by blast
  have u: "unsigned (c # t) = c # t"
    using assms(2,3) by (simp add: unsigned_def)
  have d: "\<not> digitpart (c # x)" for x
    using digitpart_hd [of c x] assms(4) by blast
  have n: "\<not> number (c # x)" for x
    using assms(5) by (simp add: number_def Let_def d split: list.split)
  have f: "\<not> floatnumber (c # t)"
  proof (cases "c = CHR ''e'' \<or> c = CHR ''E''")
    case True
    then show ?thesis by (auto simp: floatnumber_def number_def)
  next
    case False
    then show ?thesis by (simp add: floatnumber_def Let_def n split: list.split)
  qed
  show "\<not> float_parses (c # cs)"
    using f assms(6-9) by (simp add: float_parses_def t u caseless_def)
  show "\<not> int_parses (c # cs)"
    by (simp add: int_parses_def t u d)
qed

lemma digits_digitpart: "s \<noteq> [] \<Longrightarrow> set s \<subseteq> set ''0123456789'' \<Longrightarrow> digitpart s"
proof (induction s rule: digitpart.induct)
  case (3 c d cs)
  then have "d \<noteq> CHR ''_''" by auto
  with 3 show ?case by (auto simp: is_digit_def)
qed (auto simp: is_digit_def)

lemma digits_float_parses:
  assumes "s \<noteq> []" "set s \<subseteq> set ''0123456789''"
  shows "float_parses s"
proof -
  obtain c cs where s: "s = c # cs" using assms(1) by (cases s) auto
  have c: "c \<in> set ''0123456789''" using assms(2) s by auto
  have ns: "\<And>x. x \<in> set s \<Longrightarrow> \<not> is_space x"
    using assms(2) by (auto simp: is_space_def)
  have "dropWhile is_space s = s"
    using ns s by simp
  moreover have "dropWhile is_space (rev s) = rev s"
    using ns [of "last s"] assms(1) by (cases s rule: rev_cases) auto
  ultimately have st: "strip s = s" by (simp add: strip_def)
  have u: "unsigned s = s" using c by (auto simp: unsigned_def s)
  show ?thesis
    using digits_digitpart [OF assms] by (simp add: float_parses_def st u digitpart_floatnumber)
qed

text \<open>
  C7. The claim gives the rules for an Atom whose value is text, in their order. Two of
  them are not the source's. The test for a string literal, \<^verbatim>\<open>value == '""' or
  (value.startswith('"') and value.endswith('"'))\<close>, holds of every non-empty text that
  begins and ends with a double quote, so the one-character text \<^verbatim>\<open>"\<close>, which no pair of
  quotes delimits, is a String and not an error; and the message of the last rule is
  \<^verbatim>\<open>Cannot infer type of '<value>'\<close>, with a capital. As amended: a non-empty text that
  begins and ends with a double quote is a String; \<^verbatim>\<open>true\<close> and \<^verbatim>\<open>false\<close> are Bool; a
  name bound in the namespace has its bound type; text that \<^verbatim>\<open>float()\<close> or \<^verbatim>\<open>int()\<close>
  reads is a Number; any other text fails with that message. In particular text that reads
  as a number and is not a bound name is a Number (such text is neither a string literal
  nor a boolean literal), as is every unbound non-empty text of decimal digits; and unbound
  text that begins with a lower-case letter other than \<^verbatim>\<open>i\<close> and \<^verbatim>\<open>n\<close>, and is not
  \<^verbatim>\<open>true\<close> or \<^verbatim>\<open>false\<close>, fails.
\<close>

theorem infer_atom_text:
  "infer_type name ns (Atom (Str s)) =
     (if s \<noteq> [] \<and> hd s = CHR 0x22 \<and> last s = CHR 0x22 then Ok (Primitive String)
      else if s = ''true'' \<or> s = ''false'' then Ok (Primitive Bool)
      else if ns s \<noteq> None then Ok (the (ns s))
      else if float_parses s \<or> int_parses s then Ok (Primitive Number)
      else Fail (Message (''Cannot infer type of '' @ [CHR 0x27] @ s @ [CHR 0x27])))
   \<and> ((float_parses s \<or> int_parses s) \<and> ns s = None
        \<longrightarrow> infer_type name ns (Atom (Str s)) = Ok (Primitive Number))
   \<and> (s \<noteq> [] \<and> set s \<subseteq> set ''0123456789'' \<and> ns s = None
        \<longrightarrow> infer_type name ns (Atom (Str s)) = Ok (Primitive Number))
   \<and> (s \<noteq> [] \<and> hd s \<in> set ''abcdefghjklmopqrstuvwxyz'' \<and> s \<noteq> ''true'' \<and> s \<noteq> ''false''
        \<and> ns s = None
        \<longrightarrow> infer_type name ns (Atom (Str s))
            = Fail (Message (''Cannot infer type of '' @ [CHR 0x27] @ s @ [CHR 0x27])))"
proof -
  have order: "infer_type name ns (Atom (Str s)) =
     (if s \<noteq> [] \<and> hd s = CHR 0x22 \<and> last s = CHR 0x22 then Ok (Primitive String)
      else if s = ''true'' \<or> s = ''false'' then Ok (Primitive Bool)
      else if ns s \<noteq> None then Ok (the (ns s))
      else if float_parses s \<or> int_parses s then Ok (Primitive Number)
      else Fail (Message (''Cannot infer type of '' @ [CHR 0x27] @ s @ [CHR 0x27])))"
    by (cases "ns s") (simp_all add: is_string_literal_iff is_bool_literal_def quote_def)
  have num: "infer_type name ns (Atom (Str s)) = Ok (Primitive Number)"
    if "float_parses s \<or> int_parses s" "ns s = None"
    using that number_text_is_no_literal [of s] by auto
  have digits: "infer_type name ns (Atom (Str s)) = Ok (Primitive Number)"
    if "s \<noteq> []" "set s \<subseteq> set ''0123456789''" "ns s = None"
    using num digits_float_parses that by blast
  have word: "infer_type name ns (Atom (Str s))
            = Fail (Message (''Cannot infer type of '' @ [CHR 0x27] @ s @ [CHR 0x27]))"
    if h: "s \<noteq> []" "hd s \<in> set ''abcdefghjklmopqrstuvwxyz''" "s \<noteq> ''true''" "s \<noteq> ''false''"
      "ns s = None"
  proof -
    obtain c cs where s: "s = c # cs" using h(1) by (cases s) auto
    have c: "c \<in> set ''abcdefghjklmopqrstuvwxyz''" using h(2) s by simp
    have "\<not> is_space c" "c \<noteq> CHR ''+''" "c \<noteq> CHR ''-''" "\<not> is_digit c" "c \<noteq> CHR ''.''"
      "c \<noteq> CHR ''i''" "c \<noteq> CHR ''I''" "c \<noteq> CHR ''n''" "c \<noteq> CHR ''N''" "c \<noteq> CHR 0x22"
      using c by (auto simp: is_space_def is_digit_def)
    then have "\<not> float_parses s" "\<not> int_parses s" "hd s \<noteq> CHR 0x22"
      using not_number_hd [of c cs] s by auto
    with h show ?thesis by (subst order) simp
  qed
  from order num digits word show ?thesis by blast
qed

text \<open>
  C7, witness: unbound, the texts \<^verbatim>\<open>42\<close> and \<^verbatim>\<open>-1.5e3\<close> are Numbers and the text
  \<^verbatim>\<open>abc\<close> fails.
\<close>

theorem infer_atom_text_witness:
  "infer_type sample_name Map.empty (Atom (Str ''42'')) = Ok (Primitive Number)
   \<and> infer_type sample_name Map.empty (Atom (Str ''-1.5e3'')) = Ok (Primitive Number)
   \<and> infer_type sample_name Map.empty (Atom (Str ''abc''))
       = Fail (Message (''Cannot infer type of '' @ [CHR 0x27] @ ''abc'' @ [CHR 0x27]))"
proof -
  have digits: "''42'' \<noteq> [] \<and> set ''42'' \<subseteq> set ''0123456789''
      \<and> (Map.empty :: string \<rightharpoonup> ty) ''42'' = None"
    by simp
  have "float_parses ''-1.5e3''"
    by code_simp
  then have number: "(float_parses ''-1.5e3'' \<or> int_parses ''-1.5e3'')
      \<and> (Map.empty :: string \<rightharpoonup> ty) ''-1.5e3'' = None"
    by simp
  have word: "''abc'' \<noteq> [] \<and> hd ''abc'' \<in> set ''abcdefghjklmopqrstuvwxyz''
      \<and> ''abc'' \<noteq> ''true'' \<and> ''abc'' \<noteq> ''false''
      \<and> (Map.empty :: string \<rightharpoonup> ty) ''abc'' = None"
    by simp
  from infer_atom_text [of sample_name Map.empty "''42''"] digits
  have 1: "infer_type sample_name Map.empty (Atom (Str ''42'')) = Ok (Primitive Number)"
    by blast
  from infer_atom_text [of sample_name Map.empty "''-1.5e3''"] number
  have 2: "infer_type sample_name Map.empty (Atom (Str ''-1.5e3'')) = Ok (Primitive Number)"
    by blast
  from infer_atom_text [of sample_name Map.empty "''abc''"] word
  have 3: "infer_type sample_name Map.empty (Atom (Str ''abc''))
       = Fail (Message (''Cannot infer type of '' @ [CHR 0x27] @ ''abc'' @ [CHR 0x27]))"
    by blast
  from 1 2 3 show ?thesis by blast
qed

text \<open>
  C7, counterexample: the text of the single character \<^verbatim>\<open>"\<close> is not delimited by a
  pair of double quotes, is not a boolean literal, is unbound and is not a number; the
  claim makes it an error, and it infers to String. The text \<^verbatim>\<open>abc\<close> fails with the
  capitalised message, not with the one the claim quotes.
\<close>

theorem infer_atom_text_counterexample:
  "infer_type sample_name Map.empty (Atom (Str [CHR 0x22])) = Ok (Primitive String)
   \<and> \<not> float_parses [CHR 0x22] \<and> \<not> int_parses [CHR 0x22]
   \<and> infer_type sample_name Map.empty (Atom (Str ''abc''))
       \<noteq> Fail (Message (''cannot infer type of '' @ [CHR 0x27] @ ''abc'' @ [CHR 0x27]))"
proof -
  have 1: "infer_type sample_name Map.empty (Atom (Str [CHR 0x22])) = Ok (Primitive String)"
    by (simp add: is_string_literal_iff)
  have 2: "\<not> float_parses [CHR 0x22]" "\<not> int_parses [CHR 0x22]"
    by (rule not_float_parses_quote, rule not_int_parses_quote)
  have "\<not> float_parses ''abc''" "\<not> int_parses ''abc''"
    by code_simp+
  then have 3: "infer_type sample_name Map.empty (Atom (Str ''abc''))
       \<noteq> Fail (Message (''cannot infer type of '' @ [CHR 0x27] @ ''abc'' @ [CHR 0x27]))"
    by (simp add: is_string_literal_iff is_bool_literal_def quote_def)
  from 1 2 3 show ?thesis by simp
qed

text \<open>
  C5. The claim is that an Atom whose value is neither text nor a number infers to
  Unrecognized as a success. The source returns \<^verbatim>\<open>(False, UnrecognizedType())\<close>: a
  failure whose payload is the Unrecognized descriptor instead of a message.
\<close>

theorem infer_other_atom: "infer_type name ns (Atom (Other r)) = Fail (Type UnrecognizedType)"
  by simp

text \<open>
  C5, counterexample: the Atom that carries Python's \<^verbatim>\<open>None\<close> does not infer to the
  success \<^verbatim>\<open>(True, UnrecognizedType())\<close>.
\<close>

theorem infer_other_atom_counterexample:
  "infer_type sample_name Map.empty (Atom (Other ''None'')) = Fail (Type UnrecognizedType)
   \<and> infer_type sample_name Map.empty (Atom (Other ''None'')) \<noteq> Ok UnrecognizedType"
  by simp

section \<open>Forms without an operator\<close>

text \<open>
  C6. The claim is that a Form whose first element is a Form fails in inference and in
  emission with a syntax error that shows the offending node. Emission does raise the
  SyntaxError; inference falls off the end of the function and returns \<^verbatim>\<open>None\<close>.
\<close>

theorem form_headed_form:
  "infer_type name ns (Form (Form es # rest)) = NoneResult
   \<and> compile_obj str (Form (Form es # rest)) indent
       = Inl (SyntaxError (''Expected Atom as first element of Form, but got '' @ str (Form es)))"
  by simp

text \<open>
  C10. At every indentation, emitting a Form with no elements returns the empty string:
  no indentation is put before it and nothing is raised.
\<close>

theorem emit_empty_form: "compile_obj str (Form []) indent = Inr []"
  by simp

section \<open>List-type unification\<close>

lemma unify_erased_symmetric:
  "map_sum (\<lambda>m. ()) id (infer_element_types name t1 t2)
   = map_sum (\<lambda>m. ()) id (infer_element_types name t2 t1)"
proof (induction t1 arbitrary: t2)
  case (ListType a)
  show ?case
  proof (cases t2)
    case (ListType b)
    have ih: "map_sum (\<lambda>m. ()) id (infer_element_types name a b)
            = map_sum (\<lambda>m. ()) id (infer_element_types name b a)"
      by (rule ListType.IH)
    show ?thesis
      using ih unfolding ListType
      by (cases "infer_element_types name a b"; cases "infer_element_types name b a")
         (auto simp: infer_element_types.simps[of _ "ListType a" "ListType b"]
                     infer_element_types.simps[of _ "ListType b" "ListType a"])
  qed (auto simp: infer_element_types.simps split: sum.splits)
qed (cases t2; auto simp: infer_element_types.simps split: sum.splits)+

text \<open>
  C8. Unification is symmetric: once the message of a failure is set aside,
  \<^verbatim>\<open>infer_element_types(t1, t2)\<close> and \<^verbatim>\<open>infer_element_types(t2, t1)\<close> are the same
  result, so both fail or both succeed with equal types.
\<close>

theorem unify_symmetric:
  "map_sum (\<lambda>m. ()) id (infer_element_types name t1 t2)
   = map_sum (\<lambda>m. ()) id (infer_element_types name t2 t1)"
  by (rule unify_erased_symmetric)

text \<open>The rules of unification that the source follows, and the three examples of the spec.\<close>

lemma unify_examples:
  "infer_element_types name (ListType (Primitive Number)) EmptyList
     = Inr (PossibleEmptyList (Primitive Number))"
  "infer_element_types name (ListType (Primitive Number)) (PossibleEmptyList (Primitive Number))
     = Inr (PossibleEmptyList (Primitive Number))"
  "infer_element_types name (ListType (Primitive Number)) (ListType (Primitive String))
     = Inl (incompatible name (ListType (Primitive Number)) (ListType (Primitive String)))"
  by (simp_all add: infer_element_types.simps)

lemma unify_same: "infer_element_types name t t = Inr t"
  by (induction t) (simp_all add: infer_element_types.simps)

lemma unify_list_list:
  "infer_element_types name (ListType a) (ListType b) =
     (case infer_element_types name b a of
        Inr e \<Rightarrow> Inr (ListType e)
      | Inl _ \<Rightarrow> Inl (incompatible name (ListType a) (ListType b)))"
proof (cases "infer_element_types name b a")
  case (Inl m)
  with unify_erased_symmetric [of name a b]
  obtain m' where "infer_element_types name a b = Inl m'"
    by (cases "infer_element_types name a b") auto
  moreover from Inl have "a \<noteq> b" using unify_same [of name a] by auto
  ultimately show ?thesis using Inl
    by (simp add: infer_element_types.simps [of _ "ListType a" "ListType b"])
next
  case (Inr e)
  then show ?thesis
    by (simp add: infer_element_types.simps [of _ "ListType a" "ListType b"])
qed

lemma unify_list_empty:
  "infer_element_types name (ListType a) EmptyList = Inr (PossibleEmptyList a)"
  "infer_element_types name EmptyList (ListType a) = Inr (PossibleEmptyList a)"
  by (simp_all add: infer_element_types.simps)

lemma unify_list_possibly_empty:
  "infer_element_types name (ListType a) (PossibleEmptyList b) =
     (case infer_element_types name a b of
        Inr _ \<Rightarrow> Inr (PossibleEmptyList a)
      | Inl _ \<Rightarrow> Inl (incompatible name (ListType a) (PossibleEmptyList b)))"
  by (simp add: infer_element_types.simps [of _ "ListType a" "PossibleEmptyList b"]
           split: sum.splits)

text \<open>
  C3. The claim gives the rules of unification, among them that \<^verbatim>\<open>List(a)\<close> and
  \<^verbatim>\<open>PossibleEmptyList(b)\<close> unify to \<^verbatim>\<open>PossibleEmptyList(unify(a, b))\<close>. The source
  unifies \<open>a\<close> and \<open>b\<close> but then returns \<^verbatim>\<open>PossibleEmptyList(a)\<close>: for a list of lists
  of numbers and a possibly empty list of possibly empty lists of numbers the elements unify
  to a possibly empty list of numbers, and the result keeps the list of numbers. The
  example of the spec, where \<open>a\<close> and \<open>b\<close> are both Number, comes out as claimed.
\<close>

theorem unify_list_possibly_empty_keeps_element:
  "infer_element_types name (ListType (Primitive Number)) (PossibleEmptyList (Primitive Number))
     = Inr (PossibleEmptyList (Primitive Number))
   \<and> infer_element_types name (ListType (ListType (Primitive Number)))
       (PossibleEmptyList (PossibleEmptyList (Primitive Number)))
     = Inr (PossibleEmptyList (ListType (Primitive Number)))"
  by (simp add: infer_element_types.simps)

section \<open>Type inference of the builtin forms\<close>

lemma infer_list_form:
  assumes "ns ''list'' = None"
  shows "infer_type name ns (Form [Atom (Str ''list'')]) = Ok EmptyList"
    and "infer_type name ns (Form (Atom (Str ''list'') # a # more)) =
           (case unpack (infer_type name ns a) of
              Ok element_type \<Rightarrow> list_loop name ns 2 element_type more
            | r \<Rightarrow> r)"
  using assms by (simp_all add: builtin_functions_def)

lemma infer_rest_form:
  assumes "ns ''rest'' = None"
  shows "infer_type name ns (Form (Atom (Str ''rest'') # a # more)) =
           (case unpack (infer_type name ns a) of
              Ok list_type \<Rightarrow>
                if is_list list_type then Ok (PossibleEmptyList (element list_type))
                else Fail (Message (quote ''rest''
                       @ '' expected a non-empty List type but got '' @ quote (name list_type)))
            | r \<Rightarrow> r)"
  using assms by (simp add: builtin_functions_def)

lemma infer_if_form:
  assumes "ns ''if'' = None"
  shows "infer_type name ns (Form (Atom (Str ''if'') # c # t # f # more)) =
    (case unpack (infer_type name ns c) of
       Ok condition_type \<Rightarrow>
         if condition_type \<noteq> Primitive Bool then
           Fail (Message (''Expected if condition to have type '' @ quote ''bool''
             @ '' but got '' @ quote (name condition_type)))
         else
           (case unpack (infer_type name ns t) of
              Ok true_branch_type \<Rightarrow>
                (case unpack (infer_type name ns f) of
                   Ok false_branch_type \<Rightarrow>
                     if true_branch_type \<noteq> false_branch_type then
                       if maybe_empty_predicate true_branch_type false_branch_type
                          \<or> maybe_empty_predicate false_branch_type true_branch_type
                       then Ok (PossibleEmptyList
                              (if is_list true_branch_type
                               then element true_branch_type
                               else element false_branch_type))
                       else Fail (Message (''Incompatible types in if branches: ''
                              @ quote (name true_branch_type) @ '' and ''
                              @ quote (name false_branch_type)))
                     else Ok true_branch_type
                 | r \<Rightarrow> r)
            | r \<Rightarrow> r)
     | r \<Rightarrow> r)"
  using assms by (simp add: builtin_functions_def split: outcome.splits)

text \<open>
  The parts of the rule for \<^verbatim>\<open>if\<close> that the source follows: a condition whose type is
  not Bool fails with a message that names its type; equal branch types are the result; a
  \<^verbatim>\<open>List(T)\<close> against an EmptyList or a PossibleEmptyList, in either order, gives
  \<^verbatim>\<open>PossibleEmptyList(T)\<close>; unequal branches of any other shape fail with a message
  that names both.
\<close>

lemma if_condition_not_bool:
  assumes "ns ''if'' = None" "infer_type name ns c = Ok condition_type"
    "condition_type \<noteq> Primitive Bool"
  shows "infer_type name ns (Form [Atom (Str ''if''), c, t, f]) =
     Fail (Message (''Expected if condition to have type '' @ quote ''bool''
             @ '' but got '' @ quote (name condition_type)))"
  using assms by (simp add: infer_if_form del: infer_type.simps)

lemma if_equal_branches:
  assumes "ns ''if'' = None" "infer_type name ns c = Ok (Primitive Bool)"
    "infer_type name ns t = Ok T" "infer_type name ns f = Ok T"
  shows "infer_type name ns (Form [Atom (Str ''if''), c, t, f]) = Ok T"
  using assms by (simp add: infer_if_form del: infer_type.simps)

lemma if_list_and_maybe_empty:
  assumes "ns ''if'' = None" "infer_type name ns c = Ok (Primitive Bool)"
    "infer_type name ns t = Ok tt" "infer_type name ns f = Ok ft"
    "(tt = ListType T \<and> (ft = EmptyList \<or> ft = PossibleEmptyList U))
     \<or> (ft = ListType T \<and> (tt = EmptyList \<or> tt = PossibleEmptyList U))"
  shows "infer_type name ns (Form [Atom (Str ''if''), c, t, f]) = Ok (PossibleEmptyList T)"
  using assms by (auto simp: infer_if_form maybe_empty_predicate_def simp del: infer_type.simps)

lemma if_other_mismatch:
  assumes "ns ''if'' = None" "infer_type name ns c = Ok (Primitive Bool)"
    "infer_type name ns t = Ok tt" "infer_type name ns f = Ok ft" "tt \<noteq> ft"
    "\<not> (is_list tt \<and> (is_empty_list ft \<or> is_possibly_empty ft))"
    "\<not> (is_list ft \<and> (is_empty_list tt \<or> is_possibly_empty tt))"
  shows "infer_type name ns (Form [Atom (Str ''if''), c, t, f]) =
     Fail (Message (''Incompatible types in if branches: '' @ quote (name tt) @ '' and ''
       @ quote (name ft)))"
  using assms by (simp add: infer_if_form maybe_empty_predicate_def del: infer_type.simps)

lemma infer_atoms:
  "infer_type name ns (Atom (Str ''true'')) = Ok (Primitive Bool)"
  "ns ''1'' = None \<Longrightarrow> infer_type name ns (Atom (Str ''1'')) = Ok (Primitive Number)"
  "infer_type name ns (Atom (Str [CHR 0x22, CHR ''a'', CHR 0x22])) = Ok (Primitive String)"
proof -
  show "infer_type name ns (Atom (Str ''true'')) = Ok (Primitive Bool)"
    by (simp add: is_string_literal_def is_bool_literal_def startswith_def endswith_def)
  have "float_parses ''1''" by code_simp
  then show "infer_type name ns (Atom (Str ''1'')) = Ok (Primitive Number)" if "ns ''1'' = None"
    using that
    by (simp add: is_string_literal_def is_bool_literal_def startswith_def endswith_def)
  show "infer_type name ns (Atom (Str [CHR 0x22, CHR ''a'', CHR 0x22])) = Ok (Primitive String)"
    by (simp add: is_string_literal_def is_bool_literal_def startswith_def endswith_def)
qed

lemma infer_list_1:
  "infer_type name Map.empty (Form [Atom (Str ''list''), Atom (Str ''1'')])
     = Ok (ListType (Primitive Number))"
  by (simp add: infer_list_form infer_atoms del: infer_type.simps)

lemma infer_rest_list_a:
  "infer_type name Map.empty
     (Form [Atom (Str ''rest''), Form [Atom (Str ''list''), Atom (Str [CHR 0x22, CHR ''a'', CHR 0x22])]])
     = Ok (PossibleEmptyList (Primitive String))"
  by (simp add: infer_rest_form infer_list_form infer_atoms del: infer_type.simps)

text \<open>
  C2. The claim is that unequal branch types succeed only when one is \<^verbatim>\<open>List(T)\<close> and
  the other EmptyList or \<^verbatim>\<open>PossibleEmptyList(T)\<close>, and that every other unequal pair
  fails with a message naming both types. The source does not compare the element types
  of a List and a PossibleEmptyList: \<^verbatim>\<open>(if true (list 1) (rest (list "a")))\<close>, whose
  branches are \<^verbatim>\<open>List(Number)\<close> and \<^verbatim>\<open>PossibleEmptyList(String)\<close>, infers to
  \<^verbatim>\<open>PossibleEmptyList(Number)\<close>.
\<close>

theorem if_accepts_mismatched_elements:
  "infer_type name Map.empty
     (Form [Atom (Str ''if''), Atom (Str ''true''),
            Form [Atom (Str ''list''), Atom (Str ''1'')],
            Form [Atom (Str ''rest''),
                  Form [Atom (Str ''list''), Atom (Str [CHR 0x22, CHR ''a'', CHR 0x22])]]])
     = Ok (PossibleEmptyList (Primitive Number))"
  by (simp add: infer_if_form infer_atoms infer_list_1 infer_rest_list_a
        maybe_empty_predicate_def del: infer_type.simps)

text \<open>
  The rule for \<^verbatim>\<open>++\<close>, and a program on which it unifies a list of lists with a
  possibly empty list of possibly empty lists:
  \<^verbatim>\<open>(++ (list 1) (rest (list (rest (list 1)))))\<close>.
\<close>

lemma infer_append_form:
  assumes "ns ''++'' = None"
  shows "infer_type name ns (Form (Atom (Str ''++'') # a # b # more)) =
    (case unpack (infer_type name ns a) of
       Raised e \<Rightarrow> Raised e
     | r_element \<Rightarrow>
         (case unpack (infer_type name ns b) of
            Raised e \<Rightarrow> Raised e
          | r_list \<Rightarrow>
              (case r_element of
                 Ok element_type \<Rightarrow>
                   (case r_list of
                      Ok list_type \<Rightarrow>
                        if is_empty_list list_type then Ok (ListType element_type)
                        else
                          (case (if is_list list_type \<or> is_possibly_empty list_type
                                 then infer_element_types name (ListType element_type) list_type
                                 else Inl [])
                           of
                             Inr resulting_list_type \<Rightarrow> Ok resulting_list_type
                           | Inl _ \<Rightarrow>
                               Fail (Message (''Cannot append element of type ''
                                 @ quote (name element_type) @ '' to ''
                                 @ quote (name list_type))))
                    | r \<Rightarrow> r)
               | r \<Rightarrow> r)))"
  using assms by (simp add: builtin_functions_def split: outcome.splits)

lemma append_reaches_list_possibly_empty:
  "infer_type name Map.empty
     (Form [Atom (Str ''++''),
            Form [Atom (Str ''list''), Atom (Str ''1'')],
            Form [Atom (Str ''rest''),
                  Form [Atom (Str ''list''),
                        Form [Atom (Str ''rest''),
                              Form [Atom (Str ''list''), Atom (Str ''1'')]]]]])
     = Ok (PossibleEmptyList (ListType (Primitive Number)))"
  by (simp add: infer_append_form infer_rest_form infer_list_form infer_atoms
        infer_element_types.simps del: infer_type.simps)

section \<open>Type inference of \<^verbatim>\<open>list\<close>\<close>

lemma list_loop_append:
  "list_loop name ns i t pre = Ok (ListType acc) \<Longrightarrow>
   list_loop name ns i t (pre @ more) = list_loop name ns (i + length pre) acc more"
proof (induction pre arbitrary: i t)
  case Nil
  then show ?case by simp
next
  case (Cons e es)
  from Cons.prems obtain i_type r where
    e: "unpack (infer_type name ns e) = Ok i_type" and
    u: "infer_element_types name (ListType t) (ListType i_type) = Inr r" and
    l: "list_loop name ns (i + 1) (element r) es = Ok (ListType acc)"
    by (auto split: outcome.splits sum.splits)
  from Cons.IH [OF l] e u show ?case by simp
qed

lemma list_first_incompatible:
  assumes ns: "ns ''list'' = None"
    and pre: "infer_type name ns (Form (Atom (Str ''list'') # pre)) = Ok (ListType acc)"
    and ne: "pre \<noteq> []"
    and bad: "infer_type name ns bad = Ok tb"
    and inc: "infer_element_types name (ListType acc) (ListType tb) = Inl m"
  shows "infer_type name ns (Form (Atom (Str ''list'') # pre @ bad # post)) =
     Fail (Message (''List '' @ str_nat (length pre) @ ''-th element has type ''
       @ quote (name tb) @ '' which is not compatible with inferred type ''
       @ quote (name acc)))"
proof -
  from ne obtain a more where p: "pre = a # more" by (cases pre) auto
  from pre obtain t0 where
    a: "unpack (infer_type name ns a) = Ok t0" and
    l: "list_loop name ns 2 t0 more = Ok (ListType acc)"
    unfolding p infer_list_form(2) [where ns=ns, OF ns] by (auto split: outcome.splits)
  have "infer_type name ns (Form (Atom (Str ''list'') # pre @ bad # post))
        = list_loop name ns 2 t0 (more @ bad # post)"
    unfolding p using a by (simp add: infer_list_form(2) [where ns=ns, OF ns] del: infer_type.simps)
  also have "\<dots> = list_loop name ns (2 + length more) acc (bad # post)"
    by (rule list_loop_append [OF l])
  also have "\<dots> = Fail (Message (''List '' @ str_nat (length pre) @ ''-th element has type ''
       @ quote (name tb) @ '' which is not compatible with inferred type ''
       @ quote (name acc)))"
    using bad inc by (simp add: p)
  finally show ?thesis .
qed

text \<open>
  C4. The claim is that the first argument of \<^verbatim>\<open>(list a1 ... an)\<close> whose type does not
  unify with the accumulated element type is reported by its 1-based position among the
  arguments. The source formats \<^verbatim>\<open>i - 1\<close>, where \<open>i\<close> is the index of the argument in
  \<^verbatim>\<open>elements\<close>: that is the number of arguments before it, its 0-based position. As
  amended: when the arguments \<open>pre\<close> (at least one) infer to \<^verbatim>\<open>List(acc)\<close>, the next
  argument \<open>bad\<close> has the type \<open>tb\<close> and \<open>tb\<close> does not unify with \<open>acc\<close>, inference
  fails with the message \<^verbatim>\<open>List k-th element has type 'tb' which is not compatible with
  inferred type 'acc'\<close> where \<open>k\<close> is the number of arguments before \<open>bad\<close>; and
  \<^verbatim>\<open>(list)\<close> infers to EmptyList. (\<^verbatim>\<open>list\<close> is not a name of the namespace.)
\<close>

theorem list_reports_index:
  "ns ''list'' = None \<Longrightarrow>
   infer_type name ns (Form [Atom (Str ''list'')]) = Ok EmptyList
   \<and> (infer_type name ns (Form (Atom (Str ''list'') # pre)) = Ok (ListType acc)
        \<and> pre \<noteq> [] \<and> infer_type name ns bad = Ok tb
        \<and> isl (infer_element_types name (ListType acc) (ListType tb))
      \<longrightarrow> infer_type name ns (Form (Atom (Str ''list'') # pre @ bad # post)) =
            Fail (Message (''List '' @ str_nat (length pre) @ ''-th element has type ''
              @ quote (name tb) @ '' which is not compatible with inferred type ''
              @ quote (name acc))))"
proof (intro conjI impI)
  assume ns: "ns ''list'' = None"
  then show "infer_type name ns (Form [Atom (Str ''list'')]) = Ok EmptyList"
    by (rule infer_list_form(1) [where ns=ns])
  assume h: "infer_type name ns (Form (Atom (Str ''list'') # pre)) = Ok (ListType acc)
        \<and> pre \<noteq> [] \<and> infer_type name ns bad = Ok tb
        \<and> isl (infer_element_types name (ListType acc) (ListType tb))"
  then obtain m where "infer_element_types name (ListType acc) (ListType tb) = Inl m"
    by (cases "infer_element_types name (ListType acc) (ListType tb)") auto
  with ns h show "infer_type name ns (Form (Atom (Str ''list'') # pre @ bad # post)) =
            Fail (Message (''List '' @ str_nat (length pre) @ ''-th element has type ''
              @ quote (name tb) @ '' which is not compatible with inferred type ''
              @ quote (name acc)))"
    using list_first_incompatible by blast
qed

text \<open>
  C4, witness: in \<^verbatim>\<open>(list 1 "a")\<close> one argument precedes \<^verbatim>\<open>"a"\<close>, and the message
  says \<^verbatim>\<open>1-th\<close>.
\<close>

theorem list_reports_index_witness:
  "infer_type sample_name Map.empty (Form [Atom (Str ''list'')]) = Ok EmptyList
   \<and> infer_type sample_name Map.empty
       (Form [Atom (Str ''list''), Atom (Str ''1''), Atom (Str [CHR 0x22, CHR ''a'', CHR 0x22])])
     = Fail (Message (''List 1-th element has type '' @ quote ''string''
         @ '' which is not compatible with inferred type '' @ quote ''number''))"
proof -
  have 1: "infer_type sample_name Map.empty (Form (Atom (Str ''list'') # [Atom (Str ''1'')]))
           = Ok (ListType (Primitive Number))"
    by (rule infer_list_1)
  have 2: "infer_type sample_name Map.empty (Atom (Str [CHR 0x22, CHR ''a'', CHR 0x22]))
           = Ok (Primitive String)"
    by (rule infer_atoms(3))
  have 3: "isl (infer_element_types sample_name (ListType (Primitive Number))
                  (ListType (Primitive String)))"
    by (simp add: infer_element_types.simps)
  have 4: "str_nat (length [Atom (Str ''1'')]) = ''1''"
    by (simp add: str_nat.simps)
  from list_reports_index [of Map.empty sample_name "[Atom (Str ''1'')]" "Primitive Number"
      "Atom (Str [CHR 0x22, CHR ''a'', CHR 0x22])" "Primitive String" "[]"] 1 2 3 4
  show ?thesis by simp
qed

text \<open>
  C4, counterexample: in \<^verbatim>\<open>(list 1 "a")\<close> the offending argument is the second one; the
  message reports 1, not its 1-based position 2.
\<close>

theorem list_position_counterexample:
  "infer_type sample_name Map.empty
       (Form [Atom (Str ''list''), Atom (Str ''1''), Atom (Str [CHR 0x22, CHR ''a'', CHR 0x22])])
     = Fail (Message (''List '' @ str_nat 1 @ ''-th element has type '' @ quote ''string''
         @ '' which is not compatible with inferred type '' @ quote ''number''))
   \<and> infer_type sample_name Map.empty
       (Form [Atom (Str ''list''), Atom (Str ''1''), Atom (Str [CHR 0x22, CHR ''a'', CHR 0x22])])
     \<noteq> Fail (Message (''List '' @ str_nat 2 @ ''-th element has type '' @ quote ''string''
         @ '' which is not compatible with inferred type '' @ quote ''number''))"
proof -
  have "infer_type sample_name Map.empty
       (Form [Atom (Str ''list''), Atom (Str ''1''), Atom (Str [CHR 0x22, CHR ''a'', CHR 0x22])])
     = Fail (Message (''List '' @ str_nat 1 @ ''-th element has type '' @ quote ''string''
         @ '' which is not compatible with inferred type '' @ quote ''number''))"
    by (simp add: infer_list_form infer_atoms infer_element_types.simps del: infer_type.simps)
  moreover have "str_nat 1 \<noteq> str_nat 2" by (simp add: str_nat.simps)
  ultimately show ?thesis by simp
qed

section \<open>Arity of the builtin forms in emission\<close>

text \<open>
  The builtins whose arity the source checks fail, on any other number of arguments, with
  a TypeError that names the operator, the expected count and the actual count; so does
  \<^verbatim>\<open>(not 1 2)\<close>.
\<close>

lemma str_nat_digits: "str_nat 1 = ''1''" "str_nat 2 = ''2''" "str_nat 3 = ''3''"
  by (simp_all add: str_nat.simps)

lemma arity_checked_1:
  assumes "length arguments \<noteq> 1"
  shows "compile_obj str (Form (Atom (Str ''not'') # arguments)) indent
           = Inl (takes ''not'' ''1 argument'' (length arguments))"
    and "compile_obj str (Form (Atom (Str ''first'') # arguments)) indent
           = Inl (takes ''first'' ''1 argument'' (length arguments))"
    and "compile_obj str (Form (Atom (Str ''rest'') # arguments)) indent
           = Inl (takes ''rest'' ''1 argument'' (length arguments))"
  using assms by (simp_all add: builtin_functions_def)

lemma arity_checked_2:
  assumes "length arguments \<noteq> 2"
  shows "compile_obj str (Form (Atom (Str ''<'') # arguments)) indent
           = Inl (takes ''<'' ''2 arguments'' (length arguments))"
    and "compile_obj str (Form (Atom (Str ''>'') # arguments)) indent
           = Inl (takes ''>'' ''2 arguments'' (length arguments))"
    and "compile_obj str (Form (Atom (Str ''<='') # arguments)) indent
           = Inl (takes ''<='' ''2 arguments'' (length arguments))"
    and "compile_obj str (Form (Atom (Str ''>='') # arguments)) indent
           = Inl (takes ''>='' ''2 arguments'' (length arguments))"
    and "compile_obj str (Form (Atom (Str ''='') # arguments)) indent
           = Inl (takes ''='' ''2 arguments'' (length arguments))"
    and "compile_obj str (Form (Atom (Str ''map'') # arguments)) indent
           = Inl (takes ''map'' ''2 arguments'' (length arguments))"
    and "compile_obj str (Form (Atom (Str ''filter'') # arguments)) indent
           = Inl (takes ''filter'' ''2 arguments'' (length arguments))"
  using assms by (simp_all add: builtin_functions_def str_nat_digits)

lemma arity_checked_3:
  assumes "length arguments \<noteq> 3"
  shows "compile_obj str (Form (Atom (Str ''if'') # arguments)) indent
           = Inl (TypeError (''if requires 3 arguments but '' @ str_nat (length arguments)
                    @ '' were given!''))"
  using assms by (simp add: builtin_functions_def)

lemma not_1_2:
  "compile_obj str (Form [Atom (Str ''not''), Atom (Str ''1''), Atom (Str ''2'')]) indent
     = Inl (TypeError (quote ''not'' @ '' takes 1 argument but 2 were given!''))"
  by (simp add: arity_checked_1(1) takes_def str_nat.simps [of "Suc (Suc 0)"] del: compile_obj.simps)

text \<open>
  C9. The claim is that every builtin of fixed arity fails, on a wrong number of
  arguments, with a message naming the operator, the expected and the actual count. The
  spec gives \<^verbatim>\<open>lambda\<close> exactly two arguments, and the source does not count them:
  \<^verbatim>\<open>(lambda x y z)\<close> is emitted as \<^verbatim>\<open>lambda x: y\<close>, and \<^verbatim>\<open>(lambda x)\<close> raises the
  IndexError of \<^verbatim>\<open>form.elements[2]\<close>.
\<close>

theorem lambda_arity_unchecked:
  "compile_obj str
     (Form [Atom (Str ''lambda''), Atom (Str ''x''), Atom (Str ''y''), Atom (Str ''z'')]) indent
     = Inr (current_indent indent @ ''lambda x: y'')
   \<and> compile_obj str (Form [Atom (Str ''lambda''), Atom (Str ''x'')]) indent = Inl IndexError"
  by (simp add: builtin_functions_def current_indent_def)

section \<open>Validation of the root level\<close>

text \<open>
  C1. The claim is that \<^verbatim>\<open>compile_program\<close> rejects a top-level node that is neither a
  function definition nor an import, and accepts a tree of function definitions and
  imports. \<^verbatim>\<open>validate\<close> tests \<^verbatim>\<open>not is_function_def(obj) and is_import(obj)\<close>: a form
  that is neither passes, and in interactive mode the program that consists of it compiles;
  an import that is not a function definition is rejected with the message \<^verbatim>\<open>Expected
  only function definitions and imports at root-level but got: ...\<close>.
\<close>

theorem root_level_validation:
  "(\<not> is_function_def (Form es) \<and> \<not> is_import (Form es)
      \<and> compile_obj str (Form es) 0 = Inr text
    \<longrightarrow> compile_program str is_function_def is_import to_function [Form es] [] True
        = Inr (True, ''from lisp_core import *'' @ [CHR 0x0A, CHR 0x0A] @ text
                 @ [CHR 0x0A, CHR 0x0A], []))
   \<and> (\<not> is_function_def (Form es) \<and> is_import (Form es)
    \<longrightarrow> compile_program str is_function_def is_import to_function (Form es # objs) ext_funcs is_repl
        = Inr (False, ''Expected only function definitions and imports at root-level but got: ''
                 @ str (Form es), []))"
  by (simp add: compile_program_def convert_to_output_def del: compile_obj.simps)

text \<open>
  C1, witness: \<^verbatim>\<open>(print 1)\<close> compiles in interactive mode, \<^verbatim>\<open>(import os)\<close> is
  rejected.
\<close>

theorem root_level_validation_witness:
  "compile_program sample_str (head_is ''fun'') (head_is ''import'') (\<lambda>form. Inl AttributeError)
     [Form [Atom (Str ''print''), Atom (Str ''1'')]] [] True
     = Inr (True, ''from lisp_core import *'' @ [CHR 0x0A, CHR 0x0A] @ ''print(1)''
              @ [CHR 0x0A, CHR 0x0A], [])
   \<and> compile_program sample_str (head_is ''fun'') (head_is ''import'') (\<lambda>form. Inl AttributeError)
     [Form [Atom (Str ''import''), Atom (Str ''os'')]] [] True
     = Inr (False, ''Expected only function definitions and imports at root-level but got: ''
              @ ''(import os)'', [])"
proof -
  have 1: "compile_obj sample_str (Form [Atom (Str ''print''), Atom (Str ''1'')]) 0
           = Inr ''print(1)''"
    by (simp add: builtin_functions_def current_indent_def)
  have 2: "\<not> head_is ''fun'' (Form [Atom (Str ''print''), Atom (Str ''1'')])"
    "\<not> head_is ''import'' (Form [Atom (Str ''print''), Atom (Str ''1'')])"
    "\<not> head_is ''fun'' (Form [Atom (Str ''import''), Atom (Str ''os'')])"
    "head_is ''import'' (Form [Atom (Str ''import''), Atom (Str ''os'')])"
    by (simp_all add: head_is_def)
  have 3: "sample_str (Form [Atom (Str ''import''), Atom (Str ''os'')]) = ''(import os)''"
    by simp
  from root_level_validation [of "head_is ''fun''" "[Atom (Str ''print''), Atom (Str ''1'')]"
      "head_is ''import''" sample_str "''print(1)''" "\<lambda>form. Inl AttributeError" "[]" "[]" True]
    root_level_validation [of "head_is ''fun''" "[Atom (Str ''import''), Atom (Str ''os'')]"
      "head_is ''import''" sample_str "''x''" "\<lambda>form. Inl AttributeError" "[]" "[]" True]
    1 2 3
  show ?thesis by simp
qed

end
